theory Spec2Isabelle
  imports Complex_Main "HOL-Library.Signed_Division" "HOL-Library.Monad_Syntax"
    "HOL-Library.Multiset"
begin

section \<open>Data model (tetris.h)\<close>

text \<open>
  Naming: a data member \<^verbatim>\<open>name_\<close> of the source is the record field \<open>name_m\<close> (an
  identifier may not end in an underscore); a static constant \<^verbatim>\<open>kName_\<close> is the
  constant \<open>kName\<close>; a member function \<^verbatim>\<open>Class::f\<close> whose name is shared between
  classes is \<open>Class_f\<close>. The enumerators of the two scoped enums carry the enum's name.
  \<^verbatim>\<open>int\<close> is modelled by \<open>int\<close> (coordinates, counters and indices stay far from the
  32-bit limits), \<^verbatim>\<open>double\<close> by \<open>real\<close>.
\<close>

datatype TileColor = kEmpty | kCyan | kBlue | kOrange | kYellow | kGreen | kPurple | kRed

datatype PieceKind = kNone | kPieceI | kPieceJ | kPieceL | kPieceO | kPieceS | kPieceT | kPieceZ

datatype Rotation = Rotation_kRight | Rotation_kLeft

datatype Motion = Motion_kNone | Motion_kRight | Motion_kLeft

definition kNumPieces :: int where
  "kNumPieces = 7"

text \<open>\<^verbatim>\<open>static_cast<TileColor>(kind)\<close>: both enums start at \<open>-1\<close> and count upwards.\<close>

fun colorOfKind :: "PieceKind \<Rightarrow> TileColor" where
  "colorOfKind kNone = kEmpty"
| "colorOfKind kPieceI = kCyan"
| "colorOfKind kPieceJ = kBlue"
| "colorOfKind kPieceL = kOrange"
| "colorOfKind kPieceO = kYellow"
| "colorOfKind kPieceS = kGreen"
| "colorOfKind kPieceT = kPurple"
| "colorOfKind kPieceZ = kRed"

record Piece =
  kind_m :: PieceKind
  color_m :: TileColor
  nRows_m :: int
  nCols_m :: int
  initialShape_m :: "TileColor list"
  bBoxSide_m :: int
  shape_m :: "TileColor list"
  state_m :: int
  kicksRight_m :: "(int \<times> int) list list"
  kicksLeft_m :: "(int \<times> int) list list"

text \<open>
  \<^verbatim>\<open>v[i]\<close> on a \<^verbatim>\<open>std::vector\<close> does not check its index. A read is \<open>vget\<close>; a
  write is \<open>vset\<close>, which leaves the vector alone where the source would write outside
  it (undefined behaviour there).
\<close>

definition vget :: "'a list \<Rightarrow> int \<Rightarrow> 'a" where
  "vget v i = v ! nat i"

definition vset :: "'a list \<Rightarrow> int \<Rightarrow> 'a \<Rightarrow> 'a list" where
  "vset v i x = (if 0 \<le> i \<and> i < int (length v) then v[nat i := x] else v)"

section \<open>Piece (tetris.cpp)\<close>

definition kNumStates :: int where
  "kNumStates = 4"

definition kKicksIRight :: "(int \<times> int) list list" where
  "kKicksIRight =
    [[(0, 0), (0, -2), (0, 1), (1, -2), (-2, 1)],
     [(0, 0), (0, -1), (0, 2), (-2, -1), (1, 2)],
     [(0, 0), (0, 2), (0, -1), (-1, 2), (2, -1)],
     [(0, 0), (0, 1), (0, -2), (2, 1), (-1, -2)]]"

definition kKicksILeft :: "(int \<times> int) list list" where
  "kKicksILeft =
    [[(0, 0), (0, -1), (0, 2), (-2, -1), (1, 2)],
     [(0, 0), (0, 2), (0, -1), (-1, 2), (2, -1)],
     [(0, 0), (0, 1), (0, -2), (2, 1), (-1, -2)],
     [(0, 0), (0, -2), (0, 1), (1, -2), (-2, 1)]]"

definition kKicksOtherRight :: "(int \<times> int) list list" where
  "kKicksOtherRight =
    [[(0, 0), (0, 1), (-1, -1), (2, 0), (2, -1)],
     [(0, 0), (0, 1), (1, 1), (-2, 0), (-2, 1)],
     [(0, 0), (0, 1), (-1, 1), (2, 0), (2, 1)],
     [(0, 0), (0, -1), (1, -1), (-2, 0), (-2, -1)]]"

definition kicksOtherLeft :: "(int \<times> int) list list" where
  "kicksOtherLeft =
    [[(0, 0), (0, 1), (-1, 1), (2, 0), (2, 1)],
     [(0, 0), (0, -1), (1, 1), (-2, 0), (-2, 1)],
     [(0, 0), (0, -1), (-1, -1), (2, 0), (2, -1)],
     [(0, 0), (0, -1), (1, -1), (-2, 0), (-2, -1)]]"

text \<open>The switch of the constructor: sizes, bounding box, initial shape and shape.\<close>

fun pieceGeometry :: "PieceKind \<Rightarrow> int \<times> int \<times> int \<times> TileColor list \<times> TileColor list" where
  "pieceGeometry kNone = (0, 0, 0, [], [])"
| "pieceGeometry kPieceI =
    (let e = kEmpty; c = colorOfKind kPieceI
     in (1, 4, 4, [c, c, c, c], [e, e, e, e, c, c, c, c, e, e, e, e, e, e, e, e]))"
| "pieceGeometry kPieceJ =
    (let e = kEmpty; c = colorOfKind kPieceJ
     in (2, 3, 3, [c, e, e, c, c, c], [c, e, e, c, c, c, e, e, e]))"
| "pieceGeometry kPieceL =
    (let e = kEmpty; c = colorOfKind kPieceL
     in (2, 3, 3, [e, e, c, c, c, c], [e, e, c, c, c, c, e, e, e]))"
| "pieceGeometry kPieceO =
    (let c = colorOfKind kPieceO
     in (2, 2, 2, [c, c, c, c], [c, c, c, c]))"
| "pieceGeometry kPieceS =
    (let e = kEmpty; c = colorOfKind kPieceS
     in (2, 3, 3, [e, c, c, c, c, e], [e, c, c, c, c, e, e, e, e]))"
| "pieceGeometry kPieceT =
    (let e = kEmpty; c = colorOfKind kPieceT
     in (2, 3, 3, [e, c, e, c, c, c], [e, c, e, c, c, c, e, e, e]))"
| "pieceGeometry kPieceZ =
    (let e = kEmpty; c = colorOfKind kPieceZ
     in (2, 3, 3, [c, c, e, e, c, c], [c, c, e, e, c, c, e, e, e]))"

definition Piece :: "PieceKind \<Rightarrow> Piece" where
  "Piece kind =
    (case pieceGeometry kind of (nR, nC, bBox, initialShape, shape) \<Rightarrow>
      \<lparr> kind_m = kind, color_m = colorOfKind kind, nRows_m = nR, nCols_m = nC,
        initialShape_m = initialShape, bBoxSide_m = bBox, shape_m = shape, state_m = 0,
        kicksRight_m =
          (if kind = kPieceO \<or> kind = kNone then []
           else if kind = kPieceI then kKicksIRight else kKicksOtherRight),
        kicksLeft_m =
          (if kind = kPieceO \<or> kind = kNone then []
           else if kind = kPieceI then kKicksILeft else kicksOtherLeft) \<rparr>)"

text \<open>
  The two loop nests of \<^verbatim>\<open>Piece::rotate\<close>. Each carries the new shape and the running
  read index. Right: \<^verbatim>\<open>col\<close> from \<open>bBoxSide - 1\<close> down to \<open>0\<close>, \<^verbatim>\<open>row\<close> from \<open>0\<close> up.
  Left: \<^verbatim>\<open>col\<close> from \<open>0\<close> up, \<^verbatim>\<open>i\<close> from \<open>bBoxSide - 1\<close> down to \<open>0\<close>.
\<close>

function rotateRightRow :: "int \<Rightarrow> TileColor list \<Rightarrow> int \<Rightarrow> int \<Rightarrow> TileColor list \<times> int
    \<Rightarrow> TileColor list \<times> int" where
  "rotateRightRow bBox shape col row (newShape, index) =
    (if row < bBox
     then rotateRightRow bBox shape col (row + 1)
            (vset newShape (row * bBox + col) (vget shape index), index + 1)
     else (newShape, index))"
  by pat_completeness auto
termination
  by (relation "measure (\<lambda>(bBox, shape, col, row, acc). nat (bBox - row))") auto

declare rotateRightRow.simps [simp del]

function rotateRightCol :: "int \<Rightarrow> TileColor list \<Rightarrow> int \<Rightarrow> TileColor list \<times> int
    \<Rightarrow> TileColor list \<times> int" where
  "rotateRightCol bBox shape col acc =
    (if col \<ge> 0
     then rotateRightCol bBox shape (col - 1) (rotateRightRow bBox shape col 0 acc)
     else acc)"
  by pat_completeness auto
termination
  by (relation "measure (\<lambda>(bBox, shape, col, acc). nat (col + 1))") auto

declare rotateRightCol.simps [simp del]

function rotateLeftRow :: "int \<Rightarrow> TileColor list \<Rightarrow> int \<Rightarrow> int \<Rightarrow> TileColor list \<times> int
    \<Rightarrow> TileColor list \<times> int" where
  "rotateLeftRow bBox shape col i (newShape, index) =
    (if i \<ge> 0
     then rotateLeftRow bBox shape col (i - 1)
            (vset newShape (i * bBox + col) (vget shape index), index + 1)
     else (newShape, index))"
  by pat_completeness auto
termination
  by (relation "measure (\<lambda>(bBox, shape, col, i, acc). nat (i + 1))") auto

declare rotateLeftRow.simps [simp del]

function rotateLeftCol :: "int \<Rightarrow> TileColor list \<Rightarrow> int \<Rightarrow> TileColor list \<times> int
    \<Rightarrow> TileColor list \<times> int" where
  "rotateLeftCol bBox shape col acc =
    (if col < bBox
     then rotateLeftCol bBox shape (col + 1) (rotateLeftRow bBox shape col (bBox - 1) acc)
     else acc)"
  by pat_completeness auto
termination
  by (relation "measure (\<lambda>(bBox, shape, col, acc). nat (bBox - col))") auto

declare rotateLeftCol.simps [simp del]

text \<open>
  \<^verbatim>\<open>std::vector<TileColor> newShape(shape_.size())\<close> value-initialises its elements, that
  is to the enumerator of value \<open>0\<close>, \<open>kCyan\<close>. The state wraps after the shape is stored.
\<close>

definition wrapState :: "int \<Rightarrow> int" where
  "wrapState s = (if s = -1 then kNumStates - 1 else if s = kNumStates then 0 else s)"

definition Piece_rotate :: "Rotation \<Rightarrow> Piece \<Rightarrow> Piece" where
  "Piece_rotate rotation p =
    (if kind_m p = kPieceO then p
     else
       let newShape = replicate (length (shape_m p)) kCyan;
           bBox = bBoxSide_m p
       in (case rotation of
             Rotation_kRight \<Rightarrow>
               p\<lparr> state_m := wrapState (state_m p + 1),
                  shape_m := fst (rotateRightCol bBox (shape_m p) (bBox - 1) (newShape, 0)) \<rparr>
           | Rotation_kLeft \<Rightarrow>
               p\<lparr> state_m := wrapState (state_m p - 1),
                  shape_m := fst (rotateLeftCol bBox (shape_m p) 0 (newShape, 0)) \<rparr>))"

text \<open>
  \<^verbatim>\<open>Piece::kicks\<close>: the row of the table for the current state. The O piece and the none
  sentinel have empty tables, so the source reads outside them; \<^verbatim>\<open>Board::rotate\<close> never
  asks.
\<close>

definition Piece_kicks :: "Rotation \<Rightarrow> Piece \<Rightarrow> (int \<times> int) list" where
  "Piece_kicks rotation p =
    (case rotation of
       Rotation_kRight \<Rightarrow> vget (kicksRight_m p) (state_m p)
     | Rotation_kLeft \<Rightarrow> vget (kicksLeft_m p) (state_m p))"

section \<open>Board (tetris.cpp)\<close>

record Board =
  nRows :: int
  nCols :: int
  tiles_m :: "TileColor list"
  piece_m :: Piece
  row_m :: int
  col_m :: int
  ghostRow_m :: int
  tilesAfterClear_m :: "TileColor list"
  linesToClear_m :: "int list"

definition kRowsAbove :: int where
  "kRowsAbove = 2"

text \<open>
  The constructor. The in-class initialisers give \<open>row_\<close>, \<open>col_\<close> and \<open>ghostRow_\<close> the
  value \<open>0\<close>; the two vectors of the line sweep start empty.
\<close>

definition Board :: "int \<Rightarrow> int \<Rightarrow> Board" where
  "Board nR nC =
    \<lparr> nRows = nR, nCols = nC,
      tiles_m = replicate (nat ((nR + kRowsAbove) * nC)) kEmpty,
      piece_m = Piece kNone, row_m = 0, col_m = 0, ghostRow_m = 0,
      tilesAfterClear_m = [], linesToClear_m = [] \<rparr>"

definition Board_clear :: "Board \<Rightarrow> Board" where
  "Board_clear b = b\<lparr> tiles_m := replicate (length (tiles_m b)) kEmpty \<rparr>"

definition tileAt :: "Board \<Rightarrow> int \<Rightarrow> int \<Rightarrow> TileColor" where
  "tileAt b row col = vget (tiles_m b) ((row + kRowsAbove) * nCols b + col)"

definition setTile :: "int \<Rightarrow> int \<Rightarrow> TileColor \<Rightarrow> Board \<Rightarrow> Board" where
  "setTile row col color b =
    b\<lparr> tiles_m := vset (tiles_m b) ((row + kRowsAbove) * nCols b + col) color \<rparr>"

definition isTileFilled :: "Board \<Rightarrow> int \<Rightarrow> int \<Rightarrow> bool" where
  "isTileFilled b row col =
    (if col < 0 \<or> col \<ge> nCols b \<or> row < - kRowsAbove \<or> row \<ge> nRows b then True
     else tileAt b row col \<noteq> kEmpty)"

text \<open>
  The loop nest of \<^verbatim>\<open>Board::isPositionPossible\<close>, with its early \<^verbatim>\<open>return false\<close>. The
  second branch is the end of an inner loop: next \<^verbatim>\<open>pieceRow\<close>, \<^verbatim>\<open>pieceCol\<close> back to 0.
\<close>

function positionLoop :: "Board \<Rightarrow> int \<Rightarrow> int \<Rightarrow> Piece \<Rightarrow> int \<Rightarrow> int \<Rightarrow> int \<Rightarrow> bool" where
  "positionLoop b row col piece pieceRow pieceCol index =
    (if pieceRow < bBoxSide_m piece then
       (if pieceCol < bBoxSide_m piece then
          (if vget (shape_m piece) index \<noteq> kEmpty
                \<and> isTileFilled b (row + pieceRow) (col + pieceCol)
           then False
           else positionLoop b row col piece pieceRow (pieceCol + 1) (index + 1))
        else positionLoop b row col piece (pieceRow + 1) 0 index)
     else True)"
  by pat_completeness auto
termination
  by (relation "measures
        [\<lambda>(b, row, col, piece, pieceRow, pieceCol, index). nat (bBoxSide_m piece - pieceRow),
         \<lambda>(b, row, col, piece, pieceRow, pieceCol, index). nat (bBoxSide_m piece - pieceCol)]")
     auto

declare positionLoop.simps [simp del]

definition isPositionPossible :: "Board \<Rightarrow> int \<Rightarrow> int \<Rightarrow> Piece \<Rightarrow> bool" where
  "isPositionPossible b row col piece =
    (if kind_m piece = kNone then False else positionLoop b row col piece 0 0 0)"

text \<open>
  \<^verbatim>\<open>Board::updateGhostRow\<close>. The \<^verbatim>\<open>while\<close> loop has no bound of its own: it stops
  because some cell of the piece meets the floor. For a piece value without an occupied
  cell it would not stop, so the loop is a partial function and not returning is \<open>None\<close>.
\<close>

partial_function (option) ghostRowLoop :: "Board \<Rightarrow> int \<Rightarrow> int option" where
  "ghostRowLoop b ghostRow =
    (if isPositionPossible b (ghostRow + 1) (col_m b) (piece_m b)
     then ghostRowLoop b (ghostRow + 1)
     else Some ghostRow)"

declare ghostRowLoop.simps [code]

definition updateGhostRow :: "Board \<Rightarrow> Board option" where
  "updateGhostRow b =
    do { ghostRow \<leftarrow> ghostRowLoop b (row_m b);
         Some (b\<lparr> ghostRow_m := ghostRow \<rparr>) }"

text \<open>
  \<^verbatim>\<open>Board::findLinesToClear\<close>. \<open>fullRowFrom\<close> is the inner occupancy loop with its
  \<^verbatim>\<open>break\<close>; \<open>copyRowLoop\<close> is the inner copy loop, which walks \<^verbatim>\<open>index\<close> down one row;
  \<open>findLinesRows\<close> is the sweep over \<^verbatim>\<open>row\<close> from \<open>nRows - 1\<close> down to \<open>-kRowsAbove\<close>,
  carrying the board (for the two vectors it writes) and the locals \<^verbatim>\<open>linesCleared\<close> and
  \<^verbatim>\<open>index\<close>. \<open>fillFront\<close> is the final \<^verbatim>\<open>std::fill\<close> on the first \<open>n\<close> elements.
\<close>

function fullRowFrom :: "Board \<Rightarrow> int \<Rightarrow> int \<Rightarrow> bool" where
  "fullRowFrom b row col =
    (if col < nCols b then
       (if \<not> isTileFilled b row col then False else fullRowFrom b row (col + 1))
     else True)"
  by pat_completeness auto
termination
  by (relation "measure (\<lambda>(b, row, col). nat (nCols b - col))") auto

declare fullRowFrom.simps [simp del]

function copyRowLoop :: "Board \<Rightarrow> int \<Rightarrow> int \<Rightarrow> TileColor list \<times> int \<Rightarrow> TileColor list \<times> int" where
  "copyRowLoop b indexShift col (tilesAfterClear, index) =
    (if col < nCols b then
       copyRowLoop b indexShift (col + 1)
         (vset tilesAfterClear (index + indexShift) (vget (tiles_m b) index), index - 1)
     else (tilesAfterClear, index))"
  by pat_completeness auto
termination
  by (relation "measure (\<lambda>(b, indexShift, col, acc). nat (nCols b - col))") auto

declare copyRowLoop.simps [simp del]

fun findLinesStep :: "int \<Rightarrow> Board \<times> int \<times> int \<Rightarrow> Board \<times> int \<times> int" where
  "findLinesStep row (b, linesCleared, index) =
    (if fullRowFrom b row 0 then
       (b\<lparr> linesToClear_m := linesToClear_m b @ [row] \<rparr>, linesCleared + 1, index - nCols b)
     else if linesCleared > 0 then
       (case copyRowLoop b (linesCleared * nCols b) 0 (tilesAfterClear_m b, index) of
          (tilesAfterClear, index') \<Rightarrow>
            (b\<lparr> tilesAfterClear_m := tilesAfterClear \<rparr>, linesCleared, index'))
     else (b, linesCleared, index - nCols b))"

declare findLinesStep.simps [simp del]

function findLinesRows :: "int \<Rightarrow> Board \<times> int \<times> int \<Rightarrow> Board \<times> int \<times> int" where
  "findLinesRows row acc =
    (if row \<ge> - kRowsAbove then findLinesRows (row - 1) (findLinesStep row acc) else acc)"
  by pat_completeness auto
termination
  by (relation "measure (\<lambda>(row, acc). nat (row + kRowsAbove + 1))") auto

declare findLinesRows.simps [simp del]

definition fillFront :: "int \<Rightarrow> 'a \<Rightarrow> 'a list \<Rightarrow> 'a list" where
  "fillFront n x v = replicate (min (nat n) (length v)) x @ drop (nat n) v"

definition findLinesToClear :: "Board \<Rightarrow> Board" where
  "findLinesToClear b =
    (case findLinesRows (nRows b - 1)
            (b\<lparr> linesToClear_m := [], tilesAfterClear_m := tiles_m b \<rparr>,
             0, int (length (tiles_m b)) - 1) of
       (b', linesCleared, index) \<Rightarrow>
         b'\<lparr> tilesAfterClear_m :=
               fillFront (linesCleared * nCols b') kEmpty (tilesAfterClear_m b') \<rparr>)"

text \<open>
  \<^verbatim>\<open>Board::frozePiece\<close>. \<open>frozeCols\<close> is the inner loop over \<^verbatim>\<open>col\<close>, \<open>frozeRows\<close> the
  outer loop over \<^verbatim>\<open>row\<close>; both carry the board, \<^verbatim>\<open>belowSkyline\<close> and \<^verbatim>\<open>index\<close>. The
  loop bounds \<^verbatim>\<open>row_ + piece_.bBoxSide()\<close> and \<^verbatim>\<open>col_ + piece_.bBoxSide()\<close> and the start
  \<^verbatim>\<open>col_\<close> of the inner loop are not touched by the loop body (only tiles are written),
  so they are taken on entry, as is the copy of the shape.
\<close>

function frozeCols :: "TileColor list \<Rightarrow> int \<Rightarrow> int \<Rightarrow> int \<Rightarrow> Board \<times> bool \<times> int
    \<Rightarrow> Board \<times> bool \<times> int" where
  "frozeCols shape colEnd row col (b, belowSkyline, index) =
    (if col < colEnd then
       frozeCols shape colEnd row (col + 1)
         (if vget shape index \<noteq> kEmpty
          then (setTile row col (vget shape index) b,
                (if row \<ge> 0 then True else belowSkyline), index + 1)
          else (b, belowSkyline, index + 1))
     else (b, belowSkyline, index))"
  by pat_completeness auto
termination
  by (relation "measure (\<lambda>(shape, colEnd, row, col, acc). nat (colEnd - col))") auto

declare frozeCols.simps [simp del]

function frozeRows :: "TileColor list \<Rightarrow> int \<Rightarrow> int \<Rightarrow> int \<Rightarrow> int \<Rightarrow> Board \<times> bool \<times> int
    \<Rightarrow> Board \<times> bool \<times> int" where
  "frozeRows shape rowEnd colStart colEnd row acc =
    (if row < rowEnd then
       frozeRows shape rowEnd colStart colEnd (row + 1) (frozeCols shape colEnd row colStart acc)
     else acc)"
  by pat_completeness auto
termination
  by (relation "measure (\<lambda>(shape, rowEnd, colStart, colEnd, row, acc). nat (rowEnd - row))") auto

declare frozeRows.simps [simp del]

definition frozePiece :: "Board \<Rightarrow> bool \<times> Board" where
  "frozePiece b =
    (case frozeRows (shape_m (piece_m b)) (row_m b + bBoxSide_m (piece_m b))
            (col_m b) (col_m b + bBoxSide_m (piece_m b)) (row_m b) (b, False, 0) of
       (b', belowSkyline, index) \<Rightarrow>
         (belowSkyline, (findLinesToClear b')\<lparr> piece_m := Piece kNone \<rparr>))"

text \<open>
  \<^verbatim>\<open>Board::spawnPiece\<close>. \<open>(nCols - bBoxSide) / 2\<close> is C++ integer division, which
  truncates towards zero (\<open>sdiv\<close>). \<open>spawnSlide\<close> is the loop that moves the piece down
  at most \<^verbatim>\<open>maxMoveDown\<close> rows, with its \<^verbatim>\<open>break\<close>.
\<close>

function spawnSlide :: "int \<Rightarrow> int \<Rightarrow> Board \<Rightarrow> Board" where
  "spawnSlide maxMoveDown moveDown b =
    (if moveDown < maxMoveDown then
       (if \<not> isPositionPossible b (row_m b + 1) (col_m b) (piece_m b) then b
        else spawnSlide maxMoveDown (moveDown + 1) (b\<lparr> row_m := row_m b + 1 \<rparr>))
     else b)"
  by pat_completeness auto
termination
  by (relation "measure (\<lambda>(maxMoveDown, moveDown, b). nat (maxMoveDown - moveDown))") auto

declare spawnSlide.simps [simp del]

definition Board_spawnPiece :: "PieceKind \<Rightarrow> Board \<Rightarrow> (bool \<times> Board) option" where
  "Board_spawnPiece kind b =
    (let b1 = b\<lparr> piece_m := Piece kind, row_m := -2,
                 col_m := (nCols b - bBoxSide_m (Piece kind)) sdiv 2 \<rparr>
     in if \<not> isPositionPossible b1 (row_m b1) (col_m b1) (piece_m b1) then Some (False, b1)
        else do {
          b2 \<leftarrow> updateGhostRow (spawnSlide (if kind = kPieceI then 1 else 2) 0 b1);
          Some (True, b2) })"

definition Board_moveHorizontal :: "int \<Rightarrow> Board \<Rightarrow> (bool \<times> Board) option" where
  "Board_moveHorizontal dCol b =
    (if isPositionPossible b (row_m b) (col_m b + dCol) (piece_m b) then
       do { b' \<leftarrow> updateGhostRow (b\<lparr> col_m := col_m b + dCol \<rparr>);
            Some (True, b') }
     else Some (False, b))"

definition Board_moveVertical :: "int \<Rightarrow> Board \<Rightarrow> bool \<times> Board" where
  "Board_moveVertical dRow b =
    (if isPositionPossible b (row_m b + dRow) (col_m b) (piece_m b)
     then (True, b\<lparr> row_m := row_m b + dRow \<rparr>)
     else (False, b))"

text \<open>
  \<^verbatim>\<open>Board::rotate\<close>. \<open>rotateKicks\<close> is the loop over the kick table of the piece before
  rotation; the first offset whose position is free for the rotated piece is applied.
\<close>

fun rotateKicks :: "Piece \<Rightarrow> (int \<times> int) list \<Rightarrow> Board \<Rightarrow> (bool \<times> Board) option" where
  "rotateKicks testPiece [] b = Some (False, b)"
| "rotateKicks testPiece (kick # kicks) b =
    (let dRow = fst kick; dCol = snd kick
     in if isPositionPossible b (row_m b + dRow) (col_m b + dCol) testPiece then
          do { b' \<leftarrow> updateGhostRow
                       (b\<lparr> piece_m := testPiece, row_m := row_m b + dRow,
                           col_m := col_m b + dCol \<rparr>);
               Some (True, b') }
        else rotateKicks testPiece kicks b)"

definition Board_rotate :: "Rotation \<Rightarrow> Board \<Rightarrow> (bool \<times> Board) option" where
  "Board_rotate rotation b =
    (if kind_m (piece_m b) = kPieceO \<or> kind_m (piece_m b) = kNone then Some (False, b)
     else rotateKicks (Piece_rotate rotation (piece_m b)) (Piece_kicks rotation (piece_m b)) b)"

definition Board_hardDrop :: "Board \<Rightarrow> int \<times> Board" where
  "Board_hardDrop b = (ghostRow_m b - row_m b, b\<lparr> row_m := ghostRow_m b \<rparr>)"

definition Board_isOnGround :: "Board \<Rightarrow> bool" where
  "Board_isOnGround b = (\<not> isPositionPossible b (row_m b + 1) (col_m b) (piece_m b))"

definition numLinesToClear :: "Board \<Rightarrow> int" where
  "numLinesToClear b = int (length (linesToClear_m b))"

definition clearLines :: "Board \<Rightarrow> Board" where
  "clearLines b =
    (if linesToClear_m b = [] then b
     else b\<lparr> linesToClear_m := [], tiles_m := tilesAfterClear_m b \<rparr>)"


section \<open>Operations of the board and well-formed boards\<close>






section \<open>Tetris, the game controller (tetris.cpp)\<close>

text \<open>
  The controller holds a reference to a board; the model holds the board itself, which is
  the same as long as the board is changed through the controller only. The random
  engine and \<^verbatim>\<open>std::shuffle\<close> are library code: the engine's state is modelled by the
  sequence of numbers it is going to produce (zeros once the listed ones are used up),
  the seed by that sequence, and the shuffle by the textbook backward swap loop that
  draws one number per position. Every arrangement of a range is the result of the
  shuffle for some sequence.
\<close>

record Tetris =
  board_m :: Board
  gameOver_m :: bool
  timeStep_m :: real
  rng_m :: "nat list"
  bag_m :: "PieceKind list"
  nextPiece_m :: int
  level_m :: int
  linesCleared_m :: int
  score_m :: int
  secondsPerLine_m :: real
  moveDownTimer_m :: real
  motion_m :: Motion
  moveLeftPrev_m :: bool
  moveRightPrev_m :: bool
  moveRepeatDelayTimer_m :: real
  moveRepeatTimer_m :: real
  isOnGround_m :: bool
  lockingTimer_m :: real
  nMovesWhileLocking_m :: int
  pausedForLinesClear_m :: bool
  linesClearTimer_m :: real

definition kMoveDelay :: real where
  "kMoveDelay = 0.05"

definition kMoveRepeatDelay :: real where
  "kMoveRepeatDelay = 0.15"

definition kSoftDropSpeedFactor :: real where
  "kSoftDropSpeedFactor = 20"

definition kLockDownTimeLimit :: real where
  "kLockDownTimeLimit = 0.4"

definition kLockDownMovesLimit :: int where
  "kLockDownMovesLimit = 15"

definition kPauseAfterLineClear :: real where
  "kPauseAfterLineClear = 0.3"

fun nextRandom :: "nat list \<Rightarrow> nat \<times> nat list" where
  "nextRandom [] = (0, [])"
| "nextRandom (x # g) = (x, g)"

definition swap :: "nat \<Rightarrow> nat \<Rightarrow> 'a list \<Rightarrow> 'a list" where
  "swap i j v = v[i := v ! j, j := v ! i]"

fun shuffleFrom :: "nat \<Rightarrow> 'a list \<Rightarrow> nat list \<Rightarrow> 'a list \<times> nat list" where
  "shuffleFrom 0 v g = (v, g)"
| "shuffleFrom (Suc i) v g =
    (case nextRandom g of (x, g') \<Rightarrow> shuffleFrom i (swap (Suc i) (x mod (Suc (Suc i))) v) g')"

definition shuffle :: "'a list \<Rightarrow> nat list \<Rightarrow> 'a list \<times> nat list" where
  "shuffle v g = shuffleFrom (length v - 1) v g"

text \<open>
  \<^verbatim>\<open>std::shuffle(bag_.begin(), bag_.begin() + kNumPieces, rng_)\<close> and
  \<^verbatim>\<open>std::shuffle(bag_.begin() + kNumPieces, bag_.end(), rng_)\<close>.
\<close>

definition shuffleFrontHalf :: "Tetris \<Rightarrow> Tetris" where
  "shuffleFrontHalf t =
    (case shuffle (take (nat kNumPieces) (bag_m t)) (rng_m t) of
       (v, g) \<Rightarrow> t\<lparr> bag_m := v @ drop (nat kNumPieces) (bag_m t), rng_m := g \<rparr>)"

definition shuffleBackHalf :: "Tetris \<Rightarrow> Tetris" where
  "shuffleBackHalf t =
    (case shuffle (drop (nat kNumPieces) (bag_m t)) (rng_m t) of
       (v, g) \<Rightarrow> t\<lparr> bag_m := take (nat kNumPieces) (bag_m t) @ v, rng_m := g \<rparr>)"

text \<open>\<^verbatim>\<open>std::copy(bag_.begin() + kNumPieces, bag_.end(), bag_.begin())\<close>\<close>

definition copyBackHalfToFront :: "PieceKind list \<Rightarrow> PieceKind list" where
  "copyBackHalfToFront bag =
    (let back = drop (nat kNumPieces) bag in back @ drop (length back) bag)"

definition secondsPerLineForLevel :: "int \<Rightarrow> real" where
  "secondsPerLineForLevel level = (0.8 - real_of_int (level - 1) * 0.007) powi (level - 1)"

definition Tetris_spawnPiece :: "Tetris \<Rightarrow> Tetris option" where
  "Tetris_spawnPiece t =
    do { (ok, b) \<leftarrow> Board_spawnPiece (vget (bag_m t) (nextPiece_m t)) (board_m t);
         let t1 = t\<lparr> board_m := b, gameOver_m := \<not> ok, nextPiece_m := nextPiece_m t + 1 \<rparr>;
         let t2 = (if nextPiece_m t1 = kNumPieces
                   then (shuffleBackHalf (t1\<lparr> bag_m := copyBackHalfToFront (bag_m t1) \<rparr>))
                          \<lparr> nextPiece_m := 0 \<rparr>
                   else t1);
         Some (t2\<lparr> nMovesWhileLocking_m := 0 \<rparr>) }"

definition lock :: "Tetris \<Rightarrow> Tetris option" where
  "lock t =
    (let t1 = t\<lparr> lockingTimer_m := 0, isOnGround_m := False \<rparr>
     in case frozePiece (board_m t1) of
          (belowSkyline, b) \<Rightarrow>
            let t2 = t1\<lparr> board_m := b \<rparr>
            in if \<not> belowSkyline then Some (t2\<lparr> gameOver_m := True \<rparr>)
               else if numLinesToClear b = 0 then Tetris_spawnPiece t2
               else Some (t2\<lparr> pausedForLinesClear_m := True, linesClearTimer_m := 0 \<rparr>))"

definition checkLock :: "Tetris \<Rightarrow> Tetris option" where
  "checkLock t =
    (if \<not> Board_isOnGround (board_m t) then Some (t\<lparr> isOnGround_m := False \<rparr>)
     else
       let t1 = t\<lparr> isOnGround_m := True \<rparr>
       in if lockingTimer_m t1 \<ge> kLockDownTimeLimit
               \<or> nMovesWhileLocking_m t1 \<ge> kLockDownMovesLimit
          then lock t1
          else Some t1)"

definition Tetris_moveHorizontal :: "int \<Rightarrow> Tetris \<Rightarrow> Tetris option" where
  "Tetris_moveHorizontal dCol t =
    do { (ok, b) \<leftarrow> Board_moveHorizontal dCol (board_m t);
         let t1 = t\<lparr> board_m := b \<rparr>;
         Some (if ok \<and> isOnGround_m t1
               then t1\<lparr> lockingTimer_m := 0,
                        nMovesWhileLocking_m := nMovesWhileLocking_m t1 + 1 \<rparr>
               else t1) }"

text \<open>
  \<^verbatim>\<open>Tetris::rotate\<close> is its \<^verbatim>\<open>if\<close> statement, \<open>rotateMove\<close>, followed by the call of
  \<^verbatim>\<open>checkLock\<close>.
\<close>

definition rotateMove :: "Rotation \<Rightarrow> Tetris \<Rightarrow> Tetris option" where
  "rotateMove rotation t =
    do { (ok, b) \<leftarrow> Board_rotate rotation (board_m t);
         let t1 = t\<lparr> board_m := b \<rparr>;
         Some (if ok \<and> isOnGround_m t1
               then t1\<lparr> lockingTimer_m := 0,
                        nMovesWhileLocking_m := nMovesWhileLocking_m t1 + 1 \<rparr>
               else t1) }"

definition Tetris_rotate :: "Rotation \<Rightarrow> Tetris \<Rightarrow> Tetris option" where
  "Tetris_rotate rotation t = do { t1 \<leftarrow> rotateMove rotation t; checkLock t1 }"

definition Tetris_hardDrop :: "Tetris \<Rightarrow> Tetris option" where
  "Tetris_hardDrop t =
    (if kind_m (piece_m (board_m t)) = kNone then Some t
     else case Board_hardDrop (board_m t) of
            (rowsPassed, b) \<Rightarrow>
              lock (t\<lparr> board_m := b, score_m := score_m t + 2 * level_m t * rowsPassed \<rparr>))"

text \<open>
  \<^verbatim>\<open>Tetris::restart\<close>. The draw index \<open>nextPiece_\<close> is not among the members it resets.
\<close>

definition restart :: "int \<Rightarrow> Tetris \<Rightarrow> Tetris option" where
  "restart level t =
    Tetris_spawnPiece
      (shuffleBackHalf (shuffleFrontHalf
        (t\<lparr> board_m := Board_clear (board_m t),
            gameOver_m := False,
            level_m := level,
            secondsPerLine_m := secondsPerLineForLevel level,
            linesCleared_m := 0,
            score_m := 0,
            motion_m := Motion_kNone,
            moveLeftPrev_m := False,
            moveRightPrev_m := False,
            moveDownTimer_m := 0,
            moveRepeatTimer_m := 0,
            moveRepeatDelayTimer_m := 0,
            isOnGround_m := False,
            lockingTimer_m := 0,
            pausedForLinesClear_m := False,
            linesClearTimer_m := 0 \<rparr>)))"

text \<open>
  The constructor fills the bag with the seven kinds twice and calls \<^verbatim>\<open>restart(1)\<close>. The
  members it leaves uninitialised are all assigned by \<^verbatim>\<open>restart\<close> and the
  \<^verbatim>\<open>spawnPiece\<close> it calls before anything reads them; the values given to them here
  are placeholders.
\<close>

definition Tetris :: "Board \<Rightarrow> real \<Rightarrow> nat list \<Rightarrow> Tetris option" where
  "Tetris board timeStep randomSeed =
    restart 1
      \<lparr> board_m = board, gameOver_m = False, timeStep_m = timeStep, rng_m = randomSeed,
        bag_m = [kPieceI, kPieceJ, kPieceL, kPieceO, kPieceS, kPieceT, kPieceZ,
                 kPieceI, kPieceJ, kPieceL, kPieceO, kPieceS, kPieceT, kPieceZ],
        nextPiece_m = 0, level_m = 0, linesCleared_m = 0, score_m = 0,
        secondsPerLine_m = 0, moveDownTimer_m = 0, motion_m = Motion_kNone,
        moveLeftPrev_m = False, moveRightPrev_m = False, moveRepeatDelayTimer_m = 0,
        moveRepeatTimer_m = 0, isOnGround_m = False, lockingTimer_m = 0,
        nMovesWhileLocking_m = 0, pausedForLinesClear_m = False, linesClearTimer_m = 0 \<rparr>"

text \<open>
  \<^verbatim>\<open>Tetris::update\<close>. \<open>resolveInput\<close> is the block that settles left against right and
  gives the pair (\<^verbatim>\<open>moveRight\<close>, \<^verbatim>\<open>moveLeft\<close>); \<open>horizontalInput\<close> is the
  \<^verbatim>\<open>if (moveRight) ... else if (moveLeft) ... else\<close> chain; \<open>advanceTimers\<close> is the
  block that adds the time step to the timers; \<open>gravity\<close> is the block that moves the
  piece down when the move-down timer has run out; \<open>updateActive\<close> is the body
  after the pause block; \<open>update\<close> is the pause block, with its early \<^verbatim>\<open>return\<close>,
  followed by that body.
\<close>

definition resolveInput :: "bool \<Rightarrow> bool \<Rightarrow> Tetris \<Rightarrow> bool \<times> bool" where
  "resolveInput moveRight moveLeft t =
    (if moveLeft \<and> moveRight then
       (if \<not> moveRightPrev_m t then (moveRight, False)
        else if \<not> moveLeftPrev_m t then (False, moveLeft)
        else if motion_m t = Motion_kLeft then (False, moveLeft)
        else (moveRight, False))
     else (moveRight, moveLeft))"

definition horizontalInput :: "bool \<Rightarrow> bool \<Rightarrow> Tetris \<Rightarrow> Tetris option" where
  "horizontalInput moveRight moveLeft t =
    (if moveRight then
       do { t1 \<leftarrow>
              (if motion_m t \<noteq> Motion_kRight then
                 Tetris_moveHorizontal 1 (t\<lparr> moveRepeatDelayTimer_m := 0, moveRepeatTimer_m := 0 \<rparr>)
               else if moveRepeatDelayTimer_m t \<ge> kMoveRepeatDelay
                       \<and> moveRepeatTimer_m t \<ge> kMoveDelay then
                 Tetris_moveHorizontal 1 (t\<lparr> moveRepeatTimer_m := 0 \<rparr>)
               else Some t);
            Some (t1\<lparr> motion_m := Motion_kRight \<rparr>) }
     else if moveLeft then
       do { t1 \<leftarrow>
              (if motion_m t \<noteq> Motion_kLeft then
                 Tetris_moveHorizontal (-1) (t\<lparr> moveRepeatDelayTimer_m := 0, moveRepeatTimer_m := 0 \<rparr>)
               else if moveRepeatDelayTimer_m t \<ge> kMoveRepeatDelay
                       \<and> moveRepeatTimer_m t \<ge> kMoveDelay then
                 Tetris_moveHorizontal (-1) (t\<lparr> moveRepeatTimer_m := 0 \<rparr>)
               else Some t);
            Some (t1\<lparr> motion_m := Motion_kLeft \<rparr>) }
     else Some (t\<lparr> motion_m := Motion_kNone \<rparr>))"

definition advanceTimers :: "Tetris \<Rightarrow> Tetris" where
  "advanceTimers t =
    (let t1 = t\<lparr> moveDownTimer_m := moveDownTimer_m t + timeStep_m t,
                 moveRepeatTimer_m := moveRepeatTimer_m t + timeStep_m t,
                 moveRepeatDelayTimer_m := moveRepeatDelayTimer_m t + timeStep_m t \<rparr>
     in if isOnGround_m t1
        then t1\<lparr> lockingTimer_m := lockingTimer_m t1 + timeStep_m t1 \<rparr>
        else t1\<lparr> lockingTimer_m := 0 \<rparr>)"

definition gravity :: "bool \<Rightarrow> Tetris \<Rightarrow> Tetris" where
  "gravity softDrop t =
    (let speedFactor = (if softDrop then kSoftDropSpeedFactor else 1)
     in if moveDownTimer_m t \<ge> secondsPerLine_m t / speedFactor
        then t\<lparr> board_m := snd (Board_moveVertical 1 (board_m t)), moveDownTimer_m := 0 \<rparr>
        else t)"

definition updateActive :: "bool \<Rightarrow> bool \<Rightarrow> bool \<Rightarrow> Tetris \<Rightarrow> Tetris option" where
  "updateActive softDrop moveRight moveLeft t =
    (let t2 = advanceTimers t;
         moveLeftInput = moveLeft;
         moveRightInput = moveRight
     in case resolveInput moveRight moveLeft t2 of
          (moveRight', moveLeft') \<Rightarrow>
            do { t3 \<leftarrow> horizontalInput moveRight' moveLeft' t2;
                 checkLock (gravity softDrop
                   (t3\<lparr> moveLeftPrev_m := moveLeftInput,
                        moveRightPrev_m := moveRightInput \<rparr>)) })"

definition update :: "bool \<Rightarrow> bool \<Rightarrow> bool \<Rightarrow> Tetris \<Rightarrow> Tetris option" where
  "update softDrop moveRight moveLeft t =
    (if pausedForLinesClear_m t then
       let t1 = t\<lparr> linesClearTimer_m := linesClearTimer_m t + timeStep_m t \<rparr>
       in if linesClearTimer_m t1 < kPauseAfterLineClear then Some t1
          else
            do { t2 \<leftarrow> Tetris_spawnPiece (t1\<lparr> board_m := clearLines (board_m t1) \<rparr>);
                 updateActive softDrop moveRight moveLeft (t2\<lparr> pausedForLinesClear_m := False \<rparr>) }
     else updateActive softDrop moveRight moveLeft t)"

definition lockPercent :: "Tetris \<Rightarrow> real" where
  "lockPercent t = lockingTimer_m t / kLockDownTimeLimit"

definition linesClearPausePercent :: "Tetris \<Rightarrow> real" where
  "linesClearPausePercent t = linesClearTimer_m t / kPauseAfterLineClear"

section \<open>Command surface and reachable controller states\<close>

text \<open>
  The public commands of the controller, and the states that the constructor followed by
  any sequence of commands that return can produce.
\<close>

datatype Command = Restart int | Update bool bool bool | Rotate Rotation | HardDrop

fun perform :: "Command \<Rightarrow> Tetris \<Rightarrow> Tetris option" where
  "perform (Restart level) t = restart level t"
| "perform (Update softDrop moveRight moveLeft) t = update softDrop moveRight moveLeft t"
| "perform (Rotate rotation) t = Tetris_rotate rotation t"
| "perform HardDrop t = Tetris_hardDrop t"

fun performAll :: "Command list \<Rightarrow> Tetris \<Rightarrow> Tetris option" where
  "performAll [] t = Some t"
| "performAll (c # cs) t = do { t' \<leftarrow> perform c t; performAll cs t' }"

inductive reachable :: "Tetris \<Rightarrow> bool" where
  constructed: "Tetris board timeStep randomSeed = Some t \<Longrightarrow> reachable t"
| performed: "reachable t \<Longrightarrow> perform c t = Some t' \<Longrightarrow> reachable t'"

text \<open>
  What the grounded flag of the controller stands for: the piece cannot move down, and
  neither lock condition holds yet.
\<close>

definition groundedOk :: "Tetris \<Rightarrow> bool" where
  "groundedOk t \<longleftrightarrow>
     (isOnGround_m t \<longrightarrow>
        Board_isOnGround (board_m t) \<and> lockingTimer_m t < kLockDownTimeLimit
        \<and> nMovesWhileLocking_m t < kLockDownMovesLimit)"

section \<open>Example runs\<close>

text \<open>
  Concrete games used below to instantiate the theorems. A seed is the sequence of draws
  of the engine; \<open>[6, 5, 4, 3, 2, 1]\<close> makes one shuffle of seven entries leave them in
  place, \<open>[6, 5, 4, 0, 2, 1]\<close> makes it exchange the first entry with the fourth.
\<close>

text \<open>
  The standard board, the O piece first in the bag, time step 0.05 and soft drop held: the
  gravity interval is then one frame, so eighteen frames take the piece from its spawn
  row 0 to the floor, where the lock check of the last frame marks it grounded.
\<close>

definition groundedO :: "Tetris option" where
  "groundedO =
    Tetris (Board 20 10) 0.05 [6, 5, 4, 0, 2, 1]
      \<bind> performAll (replicate 18 (Update True False False))"


text \<open>
  A board four columns wide, time step 0.25, the I piece first: the hard drop fills the
  bottom row and starts the line-clear pause; two frames later the pause is over.
\<close>

definition afterLineClear :: "Tetris option" where
  "afterLineClear =
    Tetris (Board 20 4) 0.25 [6, 5, 4, 3, 2, 1]
      \<bind> performAll [HardDrop, Update False False False, Update False False False]"


section \<open>Theorems\<close>

subsection \<open>Piece rotation\<close>

lemma rotate_right_four_I:
  "(Piece_rotate Rotation_kRight ^^ 4) (Piece kPieceI) = Piece kPieceI"
  by code_simp

lemma rotate_right_four_J:
  "(Piece_rotate Rotation_kRight ^^ 4) (Piece kPieceJ) = Piece kPieceJ"
  by code_simp

lemma rotate_right_four_L:
  "(Piece_rotate Rotation_kRight ^^ 4) (Piece kPieceL) = Piece kPieceL"
  by code_simp

lemma rotate_right_four_S:
  "(Piece_rotate Rotation_kRight ^^ 4) (Piece kPieceS) = Piece kPieceS"
  by code_simp

lemma rotate_right_four_T:
  "(Piece_rotate Rotation_kRight ^^ 4) (Piece kPieceT) = Piece kPieceT"
  by code_simp

lemma rotate_right_four_Z:
  "(Piece_rotate Rotation_kRight ^^ 4) (Piece kPieceZ) = Piece kPieceZ"
  by code_simp

text \<open>
  C9. For every piece kind other than O and the none sentinel, four applications of
  \<^verbatim>\<open>Piece::rotate(right)\<close> to the freshly constructed piece (rotation state 0) give back
  the original shape and rotation state 0; the whole piece value is the original one.
\<close>

theorem piece_rotate_right_four_times:
  assumes "kind \<noteq> kPieceO" and "kind \<noteq> kNone"
  shows "shape_m ((Piece_rotate Rotation_kRight ^^ 4) (Piece kind)) = shape_m (Piece kind)
    \<and> state_m ((Piece_rotate Rotation_kRight ^^ 4) (Piece kind)) = 0
    \<and> (Piece_rotate Rotation_kRight ^^ 4) (Piece kind) = Piece kind"
proof -
  have four: "(Piece_rotate Rotation_kRight ^^ 4) (Piece kind) = Piece kind"
  proof (cases kind)
    case kNone
    with assms show ?thesis by blast
  next
    case kPieceO
    with assms show ?thesis by blast
  next
    case kPieceI
    then show ?thesis by (simp only: rotate_right_four_I)
  next
    case kPieceJ
    then show ?thesis by (simp only: rotate_right_four_J)
  next
    case kPieceL
    then show ?thesis by (simp only: rotate_right_four_L)
  next
    case kPieceS
    then show ?thesis by (simp only: rotate_right_four_S)
  next
    case kPieceT
    then show ?thesis by (simp only: rotate_right_four_T)
  next
    case kPieceZ
    then show ?thesis by (simp only: rotate_right_four_Z)
  qed
  have "state_m (Piece kind) = 0"
    by (simp add: Piece_def split: prod.splits)
  with four show ?thesis by simp
qed

text \<open>The T piece as an instance.\<close>

theorem piece_rotate_right_four_times_witness:
  "kPieceT \<noteq> kPieceO \<and> kPieceT \<noteq> kNone
   \<and> shape_m ((Piece_rotate Rotation_kRight ^^ 4) (Piece kPieceT)) = shape_m (Piece kPieceT)
   \<and> state_m ((Piece_rotate Rotation_kRight ^^ 4) (Piece kPieceT)) = 0
   \<and> (Piece_rotate Rotation_kRight ^^ 4) (Piece kPieceT) = Piece kPieceT"
proof -
  have distinct: "kPieceT \<noteq> kPieceO" "kPieceT \<noteq> kNone"
    by simp_all
  from piece_rotate_right_four_times[OF distinct] distinct show ?thesis
    by blast
qed

subsection \<open>Frames of the controller's operations\<close>

lemma shuffleBackHalf_fields [simp]:
  "board_m (shuffleBackHalf t) = board_m t"
  "gameOver_m (shuffleBackHalf t) = gameOver_m t"
  "timeStep_m (shuffleBackHalf t) = timeStep_m t"
  "nextPiece_m (shuffleBackHalf t) = nextPiece_m t"
  "level_m (shuffleBackHalf t) = level_m t"
  "linesCleared_m (shuffleBackHalf t) = linesCleared_m t"
  "score_m (shuffleBackHalf t) = score_m t"
  "secondsPerLine_m (shuffleBackHalf t) = secondsPerLine_m t"
  "moveDownTimer_m (shuffleBackHalf t) = moveDownTimer_m t"
  "motion_m (shuffleBackHalf t) = motion_m t"
  "moveLeftPrev_m (shuffleBackHalf t) = moveLeftPrev_m t"
  "moveRightPrev_m (shuffleBackHalf t) = moveRightPrev_m t"
  "moveRepeatDelayTimer_m (shuffleBackHalf t) = moveRepeatDelayTimer_m t"
  "moveRepeatTimer_m (shuffleBackHalf t) = moveRepeatTimer_m t"
  "isOnGround_m (shuffleBackHalf t) = isOnGround_m t"
  "lockingTimer_m (shuffleBackHalf t) = lockingTimer_m t"
  "nMovesWhileLocking_m (shuffleBackHalf t) = nMovesWhileLocking_m t"
  "pausedForLinesClear_m (shuffleBackHalf t) = pausedForLinesClear_m t"
  "linesClearTimer_m (shuffleBackHalf t) = linesClearTimer_m t"
  by (simp_all add: shuffleBackHalf_def split: prod.splits)

lemma shuffleFrontHalf_fields [simp]:
  "board_m (shuffleFrontHalf t) = board_m t"
  "gameOver_m (shuffleFrontHalf t) = gameOver_m t"
  "timeStep_m (shuffleFrontHalf t) = timeStep_m t"
  "nextPiece_m (shuffleFrontHalf t) = nextPiece_m t"
  "level_m (shuffleFrontHalf t) = level_m t"
  "linesCleared_m (shuffleFrontHalf t) = linesCleared_m t"
  "score_m (shuffleFrontHalf t) = score_m t"
  "secondsPerLine_m (shuffleFrontHalf t) = secondsPerLine_m t"
  "moveDownTimer_m (shuffleFrontHalf t) = moveDownTimer_m t"
  "motion_m (shuffleFrontHalf t) = motion_m t"
  "moveLeftPrev_m (shuffleFrontHalf t) = moveLeftPrev_m t"
  "moveRightPrev_m (shuffleFrontHalf t) = moveRightPrev_m t"
  "moveRepeatDelayTimer_m (shuffleFrontHalf t) = moveRepeatDelayTimer_m t"
  "moveRepeatTimer_m (shuffleFrontHalf t) = moveRepeatTimer_m t"
  "isOnGround_m (shuffleFrontHalf t) = isOnGround_m t"
  "lockingTimer_m (shuffleFrontHalf t) = lockingTimer_m t"
  "nMovesWhileLocking_m (shuffleFrontHalf t) = nMovesWhileLocking_m t"
  "pausedForLinesClear_m (shuffleFrontHalf t) = pausedForLinesClear_m t"
  "linesClearTimer_m (shuffleFrontHalf t) = linesClearTimer_m t"
  by (simp_all add: shuffleFrontHalf_def split: prod.splits)

lemma Tetris_spawnPiece_frame:
  assumes "Tetris_spawnPiece t = Some t'"
  shows "timeStep_m t' = timeStep_m t" "level_m t' = level_m t"
    "linesCleared_m t' = linesCleared_m t" "score_m t' = score_m t"
    "secondsPerLine_m t' = secondsPerLine_m t" "moveDownTimer_m t' = moveDownTimer_m t"
    "motion_m t' = motion_m t" "moveLeftPrev_m t' = moveLeftPrev_m t"
    "moveRightPrev_m t' = moveRightPrev_m t"
    "moveRepeatDelayTimer_m t' = moveRepeatDelayTimer_m t"
    "moveRepeatTimer_m t' = moveRepeatTimer_m t" "isOnGround_m t' = isOnGround_m t"
    "lockingTimer_m t' = lockingTimer_m t" "nMovesWhileLocking_m t' = 0"
    "pausedForLinesClear_m t' = pausedForLinesClear_m t"
    "linesClearTimer_m t' = linesClearTimer_m t"
  using assms
  by (auto simp: Tetris_spawnPiece_def Let_def split: bind_splits prod.splits if_splits)

lemma lock_frame:
  assumes "lock t = Some t'"
  shows "lockingTimer_m t' = 0" "\<not> isOnGround_m t'" "timeStep_m t' = timeStep_m t"
    "nMovesWhileLocking_m t' = 0 \<or> nMovesWhileLocking_m t' = nMovesWhileLocking_m t"
  using assms
  by (auto simp: lock_def Let_def split: prod.splits if_splits dest: Tetris_spawnPiece_frame)

lemma checkLock_groundedOk:
  "checkLock t = Some t' \<Longrightarrow> groundedOk t'"
  by (auto simp: checkLock_def groundedOk_def Let_def split: if_splits dest: lock_frame)

lemma updateActive_groundedOk:
  "updateActive softDrop moveRight moveLeft t = Some t' \<Longrightarrow> groundedOk t'"
  by (auto simp: updateActive_def Let_def split: prod.splits bind_splits
      intro: checkLock_groundedOk)

lemma restart_groundedOk:
  "restart level t = Some t' \<Longrightarrow> groundedOk t'"
  by (auto simp: restart_def groundedOk_def dest!: Tetris_spawnPiece_frame(12))

lemma perform_groundedOk:
  assumes "groundedOk t" and "perform c t = Some t'"
  shows "groundedOk t'"
proof (cases c)
  case (Restart level)
  with assms show ?thesis by (auto intro: restart_groundedOk)
next
  case (Update softDrop moveRight moveLeft)
  with assms show ?thesis
    by (auto simp: update_def Let_def groundedOk_def split: if_splits bind_splits
        dest: updateActive_groundedOk[unfolded groundedOk_def])
next
  case (Rotate rotation)
  with assms show ?thesis
    by (auto simp: Tetris_rotate_def split: bind_splits intro: checkLock_groundedOk)
next
  case HardDrop
  with assms show ?thesis
    by (auto simp: Tetris_hardDrop_def groundedOk_def split: if_splits prod.splits
        dest: lock_frame)
qed

lemma reachable_groundedOk:
  "reachable t \<Longrightarrow> groundedOk t"
proof (induction rule: reachable.induct)
  case (constructed board timeStep randomSeed t)
  then show ?case by (auto simp: Tetris_def intro: restart_groundedOk)
next
  case (performed t c t')
  then show ?case by (auto intro: perform_groundedOk)
qed

lemma performAll_reachable:
  "reachable t \<Longrightarrow> performAll cs t = Some t' \<Longrightarrow> reachable t'"
proof (induction cs arbitrary: t)
  case Nil
  then show ?case by simp
next
  case (Cons c cs)
  from Cons.prems(2) obtain t1 where "perform c t = Some t1" "performAll cs t1 = Some t'"
    by (auto split: bind_splits)
  with Cons.IH[of t1] Cons.prems(1) show ?case
    by (blast intro: reachable.performed)
qed

lemma run_reachable:
  "Tetris board timeStep randomSeed \<bind> performAll cs = Some t \<Longrightarrow> reachable t"
  by (auto split: bind_splits intro: performAll_reachable reachable.constructed)

lemma run_reachable_the:
  "Tetris board timeStep randomSeed \<bind> performAll cs \<noteq> None \<Longrightarrow>
     reachable (the (Tetris board timeStep randomSeed \<bind> performAll cs))"
  by (rule run_reachable) simp

subsection \<open>Rotating the O piece\<close>

text \<open>
  C10. \<^verbatim>\<open>Board::rotate\<close> on a board whose active piece is the O kind or the none
  sentinel returns false and leaves the whole board as it is (piece, rotation state,
  anchor and ghost row included). So the \<^verbatim>\<open>if\<close> statement of the controller's
  \<^verbatim>\<open>rotate\<close> does nothing (no timer reset, no counter increment) and the call is its
  final \<^verbatim>\<open>checkLock\<close> alone; in a reachable state whose grounded flag is set that
  \<^verbatim>\<open>checkLock\<close> changes nothing either, so the whole controller state is unchanged.
\<close>

theorem rotate_O_or_none_changes_nothing:
  assumes "kind_m (piece_m (board_m t)) = kPieceO \<or> kind_m (piece_m (board_m t)) = kNone"
  shows "Board_rotate rotation (board_m t) = Some (False, board_m t)
    \<and> rotateMove rotation t = Some t
    \<and> Tetris_rotate rotation t = checkLock t
    \<and> (reachable t \<and> isOnGround_m t \<longrightarrow> Tetris_rotate rotation t = Some t)"
proof -
  have board: "Board_rotate rotation (board_m t) = Some (False, board_m t)"
    using assms by (auto simp: Board_rotate_def)
  then have move: "rotateMove rotation t = Some t"
    by (simp add: rotateMove_def)
  then have rot: "Tetris_rotate rotation t = checkLock t"
    by (simp add: Tetris_rotate_def)
  have "Tetris_rotate rotation t = Some t" if "reachable t" and "isOnGround_m t"
  proof -
    from reachable_groundedOk[OF that(1)] that(2)
    have "Board_isOnGround (board_m t)" "lockingTimer_m t < kLockDownTimeLimit"
      "nMovesWhileLocking_m t < kLockDownMovesLimit"
      by (simp_all add: groundedOk_def)
    with that(2) have "checkLock t = Some t"
      by (simp add: checkLock_def Let_def)
    with rot show ?thesis by simp
  qed
  with board move rot show ?thesis by blast
qed


text \<open>The grounded O piece of the example run, rotated right.\<close>

lemma groundedO_facts:
  "groundedO \<noteq> None"
  "kind_m (piece_m (board_m (the groundedO))) = kPieceO"
  "isOnGround_m (the groundedO)"
  by code_simp+

theorem rotate_O_or_none_changes_nothing_witness:
  "(kind_m (piece_m (board_m (the groundedO))) = kPieceO
      \<or> kind_m (piece_m (board_m (the groundedO))) = kNone)
   \<and> reachable (the groundedO) \<and> isOnGround_m (the groundedO)
   \<and> Board_rotate Rotation_kRight (board_m (the groundedO))
       = Some (False, board_m (the groundedO))
   \<and> rotateMove Rotation_kRight (the groundedO) = Some (the groundedO)
   \<and> Tetris_rotate Rotation_kRight (the groundedO) = Some (the groundedO)"
proof -
  have reach: "reachable (the groundedO)"
    using groundedO_facts(1) unfolding groundedO_def by (rule run_reachable_the)
  have kind: "kind_m (piece_m (board_m (the groundedO))) = kPieceO
      \<or> kind_m (piece_m (board_m (the groundedO))) = kNone"
    using groundedO_facts(2) by simp
  from rotate_O_or_none_changes_nothing[OF kind, of Rotation_kRight] reach kind
    groundedO_facts(3)
  show ?thesis by blast
qed

subsection \<open>The ghost-row loop returns\<close>















subsection \<open>Hard drop\<close>





subsection \<open>Progress fractions\<close>

text \<open>
  C4 fails on the code. In the example run on the four-column board with time step 0.25
  the line-clear timer reads 0.25 and then 0.5 on the two frames after the hard drop; the
  second ends the pause (the limit is 0.3) and nothing resets the timer, so
  \<^verbatim>\<open>linesClearPausePercent()\<close> returns 5/3 in a reachable state.
\<close>

theorem linesClearPausePercent_exceeds_one:
  "reachable (the afterLineClear)
   \<and> \<not> pausedForLinesClear_m (the afterLineClear)
   \<and> linesClearTimer_m (the afterLineClear) = 1 / 2
   \<and> linesClearPausePercent (the afterLineClear) = 5 / 3
   \<and> \<not> linesClearPausePercent (the afterLineClear) \<le> 1"
proof -
  have run: "afterLineClear \<noteq> None"
    by code_simp
  have "reachable (the afterLineClear)"
    using run unfolding afterLineClear_def by (rule run_reachable_the)
  moreover have "\<not> pausedForLinesClear_m (the afterLineClear)"
    by code_simp
  moreover have "linesClearTimer_m (the afterLineClear) = 1 / 2"
    by code_simp
  ultimately show ?thesis
    by (simp add: linesClearPausePercent_def kPauseAfterLineClear_def)
qed

subsection \<open>The line sweep\<close>


lemma length_vset [simp]: "length (vset v i x) = length v"
  by (simp add: vset_def)

lemma fullRowFrom_iff:
  "fullRowFrom b row col \<longleftrightarrow> (\<forall>c. col \<le> c \<and> c < nCols b \<longrightarrow> isTileFilled b row c)"
proof (induction b row col rule: fullRowFrom.induct)
  case (1 b row col)
  show ?case
  proof (cases "col < nCols b")
    case False
    then show ?thesis by (subst fullRowFrom.simps) auto
  next
    case True
    show ?thesis
    proof (cases "isTileFilled b row col")
      case False
      with True show ?thesis by (subst fullRowFrom.simps) auto
    next
      case filled: True
      have "fullRowFrom b row col = fullRowFrom b row (col + 1)"
        using True filled by (subst fullRowFrom.simps) simp
      also have "\<dots> \<longleftrightarrow> (\<forall>c. col + 1 \<le> c \<and> c < nCols b \<longrightarrow> isTileFilled b row c)"
        using "1.IH" True filled by simp
      also have "\<dots> \<longleftrightarrow> (\<forall>c. col \<le> c \<and> c < nCols b \<longrightarrow> isTileFilled b row c)"
        using filled by (metis add1_zle_eq order_le_less)
      finally show ?thesis .
    qed
  qed
qed




lemma fullRowFrom_tilesAfterClear [simp]:
  "fullRowFrom (bb\<lparr> tilesAfterClear_m := tac \<rparr>) r c = fullRowFrom bb r c"
  by (simp add: fullRowFrom_iff isTileFilled_def tileAt_def)

lemma fullRowFrom_linesToClear [simp]:
  "fullRowFrom (bb\<lparr> linesToClear_m := ls \<rparr>) r c = fullRowFrom bb r c"
  by (simp add: fullRowFrom_iff isTileFilled_def tileAt_def)















end
